theory Spec2Isabelle
  imports Complex_Main
begin

section \<open>Fine-tuning notebook \<^verbatim>\<open>Dinov2/dinov2_lightning.ipynb\<close>: data model\<close>

text \<open>
  The notebook is glue around PyTorch, torchvision, PIL and PyTorch Lightning.  The code
  of the notebook is embedded function by function; what a library does is either
  written out where its contract is a matter of shapes (\<^verbatim>\<open>torch.stack\<close>,
  \<^verbatim>\<open>Tensor.squeeze\<close>, \<^verbatim>\<open>np.array\<close> of an image, broadcasting in
  \<^verbatim>\<open>mse_loss\<close>), or taken as a parameter where it computes values the notebook
  never inspects (the image processor, the resampling kernel, the network).

  Tensor elements are idealised as real numbers: the rounding of \<^verbatim>\<open>float32\<close>
  is not modelled, so \<^verbatim>\<open>dtype=torch.float32\<close> conversions keep the values.
\<close>

datatype error = IndexError | RuntimeError | OtherError string

text \<open>A tensor (or a NumPy array): its shape and its elements in row-major order.\<close>

record tensor =
  shape :: "nat list"
  data :: "real list"

definition wf_tensor :: "tensor \<Rightarrow> bool" where
  "wf_tensor t = (length (data t) = prod_list (shape t))"

text \<open>
  The two-key mapping \<^verbatim>\<open>{"pixel_values": ..., "labels": ...}\<close>: the dataset
  adapter returns one per example, \<^verbatim>\<open>collate_fn\<close> returns one per batch.
\<close>

record sample =
  pixel_values :: tensor
  labels :: tensor

subsection \<open>Batch collation\<close>

text \<open>
  \<^verbatim>\<open>torch.stack(tensors)\<close> with the default \<^verbatim>\<open>dim=0\<close>: a new leading
  dimension of the list's length in front of the common shape; a \<^verbatim>\<open>RuntimeError\<close>
  for an empty list and for tensors of different shapes.
\<close>

definition torch_stack :: "tensor list \<Rightarrow> error + tensor" where
  "torch_stack ts =
     (case ts of
        [] \<Rightarrow> Inl RuntimeError
      | t # rest \<Rightarrow>
          if list_all (\<lambda>u. shape u = shape t) rest
          then Inr \<lparr>shape = length ts # shape t, data = concat (map data ts)\<rparr>
          else Inl RuntimeError)"

text \<open>
  \<^verbatim>\<open>
  def collate_fn(batch):
      pixel_values = [item['pixel_values'] for item in batch]
      labels = [item['labels'] for item in batch]
      pixel_values = torch.stack(pixel_values)
      labels = torch.stack(labels)
      return {"pixel_values": pixel_values, "labels": labels}
  \<close>
\<close>

definition collate_fn :: "sample list \<Rightarrow> error + sample" where
  "collate_fn batch =
     (case torch_stack (map pixel_values batch) of
        Inl e \<Rightarrow> Inl e
      | Inr pv \<Rightarrow>
          (case torch_stack (map labels batch) of
             Inl e \<Rightarrow> Inl e
           | Inr lb \<Rightarrow> Inr \<lparr>pixel_values = pv, labels = lb\<rparr>))"

subsection \<open>The label-resizing dataset adapter \<^verbatim>\<open>CustomNYUDataset\<close>\<close>

text \<open>
  A PIL image: its size and its pixels, row by row.  The pixel type is a parameter: a
  depth map has scalar pixels (\<open>real pil_image\<close>), a colour image has pixels of several
  bands.  A raw field of a dataset row is either already a PIL image or an array that
  \<^verbatim>\<open>Image.fromarray\<close> has to convert.
\<close>

record 'px pil_image =
  im_width :: nat
  im_height :: nat
  im_pixels :: "'px list"

datatype 'px raw_image = NdArray tensor | PILImage "'px pil_image"

text \<open>A row of the underlying dataset, with the two columns the adapter reads.\<close>

record 'px item =
  item_image :: "'px raw_image"
  item_depth_map :: "real raw_image"

text \<open>
  The library functions the adapter calls and whose results it passes on unread:
  \<^verbatim>\<open>Image.fromarray\<close> (at the two pixel types) and the resampling kernel behind
  \<^verbatim>\<open>torchvision.transforms.Resize\<close>, which for a source image and a target
  \<open>(height, width)\<close> gives the pixel of the resized image at a row and a column.
\<close>

record 'px library =
  fromarray_image :: "tensor \<Rightarrow> error + 'px pil_image"
  fromarray_depth :: "tensor \<Rightarrow> error + real pil_image"
  resample :: "real pil_image \<Rightarrow> nat \<times> nat \<Rightarrow> error + (nat \<Rightarrow> nat \<Rightarrow> real)"

text \<open>
  \<^verbatim>\<open>
  def __init__(self, dataset, processor, output_size):
      self.dataset = dataset
      self.processor = processor
      self.output_size = output_size
  \<close>
  The processor is called as \<^verbatim>\<open>self.processor(images=[image], return_tensors="pt")\<close>;
  the field below is that call followed by \<^verbatim>\<open>["pixel_values"]\<close>.
\<close>

record 'px custom_nyu_dataset =
  dataset :: "'px item list"
  processor :: "'px pil_image list \<Rightarrow> error + tensor"
  output_size :: "nat \<times> nat"

definition CustomNYUDataset ::
  "'px item list \<Rightarrow> ('px pil_image list \<Rightarrow> error + tensor) \<Rightarrow> nat \<times> nat \<Rightarrow> 'px custom_nyu_dataset"
where
  "CustomNYUDataset ds proc out_size = \<lparr>dataset = ds, processor = proc, output_size = out_size\<rparr>"

text \<open>\<^verbatim>\<open>def __len__(self): return len(self.dataset)\<close>\<close>

definition dataset_len :: "'px custom_nyu_dataset \<Rightarrow> nat" where
  "dataset_len self = length (dataset self)"

text \<open>
  \<^verbatim>\<open>self.dataset[idx]\<close>: the row lookup of the underlying dataset, which indexes as a
  Python sequence does: a negative index counts from the end, and an index outside
  \<open>[-n, n)\<close> raises \<^verbatim>\<open>IndexError\<close>.
\<close>

definition seq_getitem :: "'a list \<Rightarrow> int \<Rightarrow> error + 'a" where
  "seq_getitem xs idx =
     (let n = int (length xs); j = (if idx < 0 then idx + n else idx)
      in if 0 \<le> j \<and> j < n then Inr (xs ! nat j) else Inl IndexError)"

text \<open>
  \<^verbatim>\<open>Image.fromarray(x) if not isinstance(x, Image.Image) else x\<close>
\<close>

definition to_pil :: "(tensor \<Rightarrow> error + 'p pil_image) \<Rightarrow> 'p raw_image \<Rightarrow> error + 'p pil_image" where
  "to_pil fromarray x = (case x of PILImage im \<Rightarrow> Inr im | NdArray a \<Rightarrow> fromarray a)"

text \<open>\<^verbatim>\<open>Tensor.squeeze()\<close>: every dimension of size 1 is dropped, the elements stay.\<close>

definition squeeze :: "tensor \<Rightarrow> tensor" where
  "squeeze t = t\<lparr>shape := filter (\<lambda>d. d \<noteq> 1) (shape t)\<rparr>"

text \<open>
  \<^verbatim>\<open>Resize((h, w))(img)\<close> on a PIL image: an image \<open>w\<close> wide and \<open>h\<close> high, whose
  pixels are the kernel's; an error of the kernel is passed on.
\<close>

definition grid :: "(nat \<Rightarrow> nat \<Rightarrow> 'a) \<Rightarrow> nat \<Rightarrow> nat \<Rightarrow> 'a list" where
  "grid f h w = concat (map (\<lambda>r. map (f r) [0..<w]) [0..<h])"

definition Resize ::
  "(real pil_image \<Rightarrow> nat \<times> nat \<Rightarrow> error + (nat \<Rightarrow> nat \<Rightarrow> real)) \<Rightarrow> nat \<times> nat \<Rightarrow>
     real pil_image \<Rightarrow> error + real pil_image"
where
  "Resize resampler hw img =
     (case resampler img hw of
        Inl e \<Rightarrow> Inl e
      | Inr f \<Rightarrow> Inr \<lparr>im_width = snd hw, im_height = fst hw, im_pixels = grid f (fst hw) (snd hw)\<rparr>)"

text \<open>
  \<^verbatim>\<open>np.array(img)\<close> of an image with scalar pixels is a two-dimensional array of
  shape \<open>(height, width)\<close>; \<^verbatim>\<open>torch.tensor(a, dtype=torch.float32)\<close> keeps shape
  and (idealised) elements.
\<close>

definition np_array :: "real pil_image \<Rightarrow> tensor" where
  "np_array img = \<lparr>shape = [im_height img, im_width img], data = im_pixels img\<rparr>"

definition torch_tensor_float32 :: "tensor \<Rightarrow> tensor" where
  "torch_tensor_float32 a = a"

text \<open>
  \<^verbatim>\<open>
  def __getitem__(self, idx):
      item = self.dataset[idx]
      image = Image.fromarray(item['image']) if not isinstance(item['image'], Image.Image) else item['image']
      depth_map = Image.fromarray(item['depth_map']) if not isinstance(item['depth_map'], Image.Image) else item['depth_map']
      processed_images = self.processor(images=[image], return_tensors="pt")
      input_tensor = processed_images["pixel_values"].squeeze()
      depth_map_resized = Resize((576, 736))(depth_map)  # Resize to (width, height)
      depth_map_tensor = torch.tensor(np.array(depth_map_resized), dtype=torch.float32)
      return {"pixel_values": input_tensor, "labels": depth_map_tensor}
  \<close>
  Every call that can raise is a \<open>case\<close>, in the order of the source; nothing is caught.
\<close>

definition getitem :: "'px library \<Rightarrow> 'px custom_nyu_dataset \<Rightarrow> int \<Rightarrow> error + sample" where
  "getitem lib self idx =
     (case seq_getitem (dataset self) idx of
        Inl e \<Rightarrow> Inl e
      | Inr item \<Rightarrow>
     (case to_pil (fromarray_image lib) (item_image item) of
        Inl e \<Rightarrow> Inl e
      | Inr img \<Rightarrow>
     (case to_pil (fromarray_depth lib) (item_depth_map item) of
        Inl e \<Rightarrow> Inl e
      | Inr depth_map \<Rightarrow>
     (case processor self [img] of
        Inl e \<Rightarrow> Inl e
      | Inr processed_images \<Rightarrow>
     (case Resize (resample lib) (576, 736) depth_map of
        Inl e \<Rightarrow> Inl e
      | Inr depth_map_resized \<Rightarrow>
          Inr \<lparr>pixel_values = squeeze processed_images,
               labels = torch_tensor_float32 (np_array depth_map_resized)\<rparr>)))))"

subsection \<open>Mean squared error\<close>

text \<open>
  A scalar result.  The mean over no elements is \<open>0 / 0\<close>, which PyTorch reports as
  \<^verbatim>\<open>nan\<close>; HOL's division would make it \<open>0\<close>, so it is a value of its own.
\<close>

datatype scalar = NaN | Finite real

definition mean :: "real list \<Rightarrow> scalar" where
  "mean xs = (if xs = [] then NaN else Finite (sum_list xs / real (length xs)))"

text \<open>
  Broadcasting of two shapes, aligned at their trailing dimensions (the lists below are
  the reversed shapes): two dimensions are compatible when they are equal or one of them
  is 1; otherwise \<^verbatim>\<open>torch.broadcast_tensors\<close> raises \<^verbatim>\<open>RuntimeError\<close>.
\<close>

fun broadcast_rev :: "nat list \<Rightarrow> nat list \<Rightarrow> error + nat list" where
  "broadcast_rev [] ys = Inr ys"
| "broadcast_rev (x # xs) [] = Inr (x # xs)"
| "broadcast_rev (x # xs) (y # ys) =
     (case broadcast_rev xs ys of
        Inl e \<Rightarrow> Inl e
      | Inr zs \<Rightarrow>
          if x = y then Inr (x # zs)
          else if x = 1 then Inr (y # zs)
          else if y = 1 then Inr (x # zs)
          else Inl RuntimeError)"

definition broadcast_shapes :: "nat list \<Rightarrow> nat list \<Rightarrow> error + nat list" where
  "broadcast_shapes a b = map_sum id rev (broadcast_rev (rev a) (rev b))"

text \<open>
  Expanding the elements of a tensor of shape \<open>ds\<close> to the shape \<open>ts\<close> of the same rank:
  along a dimension of equal size the sub-tensors are expanded one by one, along a
  dimension of size 1 the one expanded sub-tensor is repeated.
\<close>

fun expand_data :: "nat list \<Rightarrow> nat list \<Rightarrow> real list \<Rightarrow> real list" where
  "expand_data (d # ds) (t # ts) xs =
     (let c = prod_list ds;
          parts = concat (map (\<lambda>i. expand_data ds ts (take c (drop (i * c) xs))) [0..<d])
      in if d = t then parts else concat (replicate t parts))"
| "expand_data ds ts xs = xs"

definition broadcast_to :: "nat list \<Rightarrow> tensor \<Rightarrow> tensor" where
  "broadcast_to s t =
     \<lparr>shape = s,
      data = expand_data (replicate (length s - length (shape t)) 1 @ shape t) s (data t)\<rparr>"

text \<open>
  \<^verbatim>\<open>torch.nn.functional.mse_loss(input, target)\<close> with the default
  \<^verbatim>\<open>reduction='mean'\<close>: both tensors are broadcast to their common shape (a warning,
  not an error, when the shapes differ but are compatible), and the squared differences
  are averaged.
\<close>

definition mse_loss :: "tensor \<Rightarrow> tensor \<Rightarrow> error + scalar" where
  "mse_loss input target =
     (case broadcast_shapes (shape input) (shape target) of
        Inl e \<Rightarrow> Inl e
      | Inr s \<Rightarrow>
          Inr (mean (map2 (\<lambda>a b. (a - b)\<^sup>2)
                 (data (broadcast_to s input)) (data (broadcast_to s target)))))"

subsection \<open>The model wrapper \<^verbatim>\<open>DPTLightningModule\<close>\<close>

text \<open>
  A parameter is known by its identity.  The pretrained model is the object the code
  navigates: \<^verbatim>\<open>model.backbone.encoder.layer\<close> is the list of transformer layers,
  \<^verbatim>\<open>model.head\<close> the prediction head; the embeddings, the final layer norm and the
  neck are the rest of what \<^verbatim>\<open>model.parameters()\<close> enumerates.  Each part is the list
  of its parameters, \<open>requires_grad\<close> holds the flag of every parameter, and
  \<open>predicted_depth\<close> is \<^verbatim>\<open>model(x).predicted_depth\<close>.
\<close>

type_synonym param = nat

record dpt_model =
  backbone_embeddings :: "param list"
  backbone_encoder_layer :: "param list list"
  backbone_layernorm :: "param list"
  neck :: "param list"
  head :: "param list"
  requires_grad :: "param \<Rightarrow> bool"
  predicted_depth :: "tensor \<Rightarrow> error + tensor"

text \<open>
  \<^verbatim>\<open>Module.parameters()\<close>: the parameters of a module in registration order, a
  parameter shared by several sub-modules only at its first occurrence.
\<close>

definition parameters :: "param list \<Rightarrow> param list" where
  "parameters ps = rev (remdups (rev ps))"

definition model_parameters :: "dpt_model \<Rightarrow> param list" where
  "model_parameters m =
     parameters (backbone_embeddings m @ concat (backbone_encoder_layer m) @
                 backbone_layernorm m @ neck m @ head m)"

text \<open>\<^verbatim>\<open>for param in ps: param.requires_grad = b\<close>\<close>

definition set_requires_grad :: "bool \<Rightarrow> (param \<Rightarrow> bool) \<Rightarrow> param list \<Rightarrow> (param \<Rightarrow> bool)" where
  "set_requires_grad b rg ps = foldl (\<lambda>g p. g(p := b)) rg ps"

text \<open>The Python slice \<^verbatim>\<open>xs[-2:]\<close>: the last two elements, or all of a shorter list.\<close>

definition last_two :: "'a list \<Rightarrow> 'a list" where
  "last_two xs = drop (length xs - 2) xs"

text \<open>A metric as the trainer receives it from \<^verbatim>\<open>self.log\<close>.\<close>

datatype hook = TrainingStepHook | ValidationStepHook

record logged_metric =
  metric_name :: string
  metric_value :: scalar
  on_step :: bool
  on_epoch :: bool

text \<open>
  Modelled from the spec: the defaults of the training framework's \<^verbatim>\<open>self.log\<close>,
  which is not part of the repository.  The notebook calls
  \<^verbatim>\<open>self.log("training_loss", loss)\<close> and
  \<^verbatim>\<open>self.log("validation_loss", loss, on_epoch=True)\<close>; where an argument is left
  out, the framework decides by the hook that is running.  The spec has the training
  metric reported per step and the validation metric aggregated across an epoch, not per
  step: an omitted \<^verbatim>\<open>on_step\<close> is true in the training step only, an omitted
  \<^verbatim>\<open>on_epoch\<close> is true in the validation step only.
\<close>

definition log_metric :: "hook \<Rightarrow> string \<Rightarrow> scalar \<Rightarrow> bool option \<Rightarrow> bool option \<Rightarrow> logged_metric" where
  "log_metric h name v on_step_arg on_epoch_arg =
     \<lparr>metric_name = name, metric_value = v,
      on_step = (case on_step_arg of Some b \<Rightarrow> b | None \<Rightarrow> h = TrainingStepHook),
      on_epoch = (case on_epoch_arg of Some b \<Rightarrow> b | None \<Rightarrow> h = ValidationStepHook)\<rparr>"

text \<open>The wrapper: the model it holds and the metrics it has logged so far.\<close>

record lightning_module =
  model :: dpt_model
  logged :: "logged_metric list"

text \<open>
  \<^verbatim>\<open>
  def __init__(self):
      super().__init__()
      self.model = DPTForDepthEstimation.from_pretrained("facebook/dpt-dinov2-small-kitti")
      for param in self.model.parameters():
          param.requires_grad = False
      for layer in self.model.backbone.encoder.layer[-2:]:
          for param in layer.parameters():
              param.requires_grad = True
      for param in self.model.head.parameters():
          param.requires_grad = True
  \<close>
  The hub's loader is a parameter; its error (checkpoint not found) is passed on.
\<close>

definition DPTLightningModule :: "(string \<Rightarrow> error + dpt_model) \<Rightarrow> error + lightning_module" where
  "DPTLightningModule from_pretrained =
     (case from_pretrained ''facebook/dpt-dinov2-small-kitti'' of
        Inl e \<Rightarrow> Inl e
      | Inr m \<Rightarrow>
          let rg1 = set_requires_grad False (requires_grad m) (model_parameters m);
              rg2 = foldl (\<lambda>g layer. set_requires_grad True g (parameters layer)) rg1
                      (last_two (backbone_encoder_layer m));
              rg3 = set_requires_grad True rg2 (parameters (head m))
          in Inr \<lparr>model = m\<lparr>requires_grad := rg3\<rparr>, logged = []\<rparr>)"

text \<open>\<^verbatim>\<open>def forward(self, x): return self.model(x).predicted_depth\<close>\<close>

definition forward :: "lightning_module \<Rightarrow> tensor \<Rightarrow> error + tensor" where
  "forward self x = predicted_depth (model self) x"

text \<open>
  \<^verbatim>\<open>
  def common_step(self, batch, batch_idx):
      pixel_values = batch['pixel_values']
      labels = batch['labels']
      preds = self(pixel_values)
      loss = torch.nn.functional.mse_loss(preds, labels)
      return loss
  \<close>
\<close>

definition common_step :: "lightning_module \<Rightarrow> sample \<Rightarrow> int \<Rightarrow> error + scalar" where
  "common_step self batch batch_idx =
     (case forward self (pixel_values batch) of
        Inl e \<Rightarrow> Inl e
      | Inr preds \<Rightarrow> mse_loss preds (labels batch))"

text \<open>
  \<^verbatim>\<open>def configure_optimizers(self): return torch.optim.Adam(self.parameters())\<close>
  The wrapper's only sub-module is \<^verbatim>\<open>self.model\<close>, so its parameters are the model's.
\<close>

record optimizer =
  opt_class :: string
  opt_params :: "param list"

definition module_parameters :: "lightning_module \<Rightarrow> param list" where
  "module_parameters self = parameters (model_parameters (model self))"

definition configure_optimizers :: "lightning_module \<Rightarrow> optimizer" where
  "configure_optimizers self =
     \<lparr>opt_class = ''torch.optim.Adam'', opt_params = module_parameters self\<rparr>"

text \<open>
  \<^verbatim>\<open>
  def training_step(self, batch, batch_idx):
      loss = self.common_step(batch, batch_idx)
      self.log("training_loss", loss)
      return loss

  def validation_step(self, batch, batch_idx):
      loss = self.common_step(batch, batch_idx)
      self.log("validation_loss", loss, on_epoch=True)
      return loss
  \<close>
  Both return the result and the wrapper as the call leaves it.
\<close>

definition training_step ::
  "lightning_module \<Rightarrow> sample \<Rightarrow> int \<Rightarrow> (error + scalar) \<times> lightning_module" where
  "training_step self batch batch_idx =
     (case common_step self batch batch_idx of
        Inl e \<Rightarrow> (Inl e, self)
      | Inr loss \<Rightarrow>
          (Inr loss,
           self\<lparr>logged := logged self @
             [log_metric TrainingStepHook ''training_loss'' loss None None]\<rparr>))"

definition validation_step ::
  "lightning_module \<Rightarrow> sample \<Rightarrow> int \<Rightarrow> (error + scalar) \<times> lightning_module" where
  "validation_step self batch batch_idx =
     (case common_step self batch batch_idx of
        Inl e \<Rightarrow> (Inl e, self)
      | Inr loss \<Rightarrow>
          (Inr loss,
           self\<lparr>logged := logged self @
             [log_metric ValidationStepHook ''validation_loss'' loss None (Some True)]\<rparr>))"

text \<open>
  The operations of the wrapper, and the wrapper after a call of one of them.
  \<^verbatim>\<open>forward\<close>, \<^verbatim>\<open>common_step\<close> and \<^verbatim>\<open>configure_optimizers\<close> only return values.
\<close>

datatype call =
  Forward tensor
| CommonStep sample int
| ConfigureOptimizers
| TrainingStep sample int
| ValidationStep sample int

fun after_call :: "lightning_module \<Rightarrow> call \<Rightarrow> lightning_module" where
  "after_call self (Forward x) = self"
| "after_call self (CommonStep batch batch_idx) = self"
| "after_call self ConfigureOptimizers = self"
| "after_call self (TrainingStep batch batch_idx) = snd (training_step self batch batch_idx)"
| "after_call self (ValidationStep batch batch_idx) = snd (validation_step self batch batch_idx)"

definition after_calls :: "lightning_module \<Rightarrow> call list \<Rightarrow> lightning_module" where
  "after_calls self calls = foldl after_call self calls"

text \<open>The parameters the constructor leaves trainable.\<close>

definition trainable :: "dpt_model \<Rightarrow> param set" where
  "trainable m = set (concat (last_two (backbone_encoder_layer m))) \<union> set (head m)"

subsection \<open>The training update\<close>

text \<open>
  Modelled from the spec: the backward pass and the optimizer step of the training
  framework, which are not part of the repository (the notebook only hands the
  optimizer of \<^verbatim>\<open>configure_optimizers\<close> to the trainer).  The spec has each
  training step run "forward, loss, (framework-driven) backward, optimizer step", the
  parameters "updated in-place by the optimizer", and the frozen parameters "receive
  zero gradient \<dots> since gradient computation is disabled for them".

  A parameter is a tensor; its elements are addressed by their index.  The backward pass
  gives an element of a parameter the derivative of the loss (\<open>dloss\<close>, which the
  framework computes) when gradient computation is enabled for the parameter, and zero
  otherwise.  The optimizer is adaptive moment estimation with its default settings
  (learning rate \<open>1/1000\<close>, decay rates \<open>9/10\<close> and \<open>999/1000\<close>, \<open>\<epsilon> = 1/10\<^sup>8\<close>, no
  weight decay): per element it keeps the running averages of the gradient and of its
  square, both zero at the start, and in its \<open>t\<close>-th step it moves every element of every
  parameter of its list.
\<close>

type_synonym gradients = "param \<Rightarrow> nat \<Rightarrow> real"

record adam_slot =
  weight :: real
  exp_avg :: real
  exp_avg_sq :: real

type_synonym adam_state = "param \<Rightarrow> nat \<Rightarrow> adam_slot"

definition backward :: "(param \<Rightarrow> bool) \<Rightarrow> gradients \<Rightarrow> gradients" where
  "backward rg dloss = (\<lambda>p i. if rg p then dloss p i else 0)"

text \<open>
  The \<open>t\<close>-th step on one element with gradient \<open>g\<close>: the two running averages are
  updated, corrected for their start at zero, and the weight moves against the first
  average, scaled by the root of the second.
\<close>

definition adam_update :: "nat \<Rightarrow> adam_slot \<Rightarrow> real \<Rightarrow> adam_slot" where
  "adam_update t s g =
     (let m = (9 / 10) * exp_avg s + (1 - 9 / 10) * g;
          v = (999 / 1000) * exp_avg_sq s + (1 - 999 / 1000) * g\<^sup>2;
          bias_correction1 = 1 - (9 / 10) ^ t;
          bias_correction2 = 1 - (999 / 1000) ^ t;
          step_size = (1 / 1000) / bias_correction1;
          denom = sqrt v / sqrt bias_correction2 + 1 / 10 ^ 8
      in \<lparr>weight = weight s - step_size * (m / denom), exp_avg = m, exp_avg_sq = v\<rparr>)"

definition adam_init :: "(param \<Rightarrow> nat \<Rightarrow> real) \<Rightarrow> adam_state" where
  "adam_init w = (\<lambda>p i. \<lparr>weight = w p i, exp_avg = 0, exp_avg_sq = 0\<rparr>)"

definition optimizer_step :: "optimizer \<Rightarrow> nat \<Rightarrow> gradients \<Rightarrow> adam_state \<Rightarrow> adam_state" where
  "optimizer_step opt t g st =
     (\<lambda>p i. if p \<in> set (opt_params opt) then adam_update t (st p i) (g p i) else st p i)"

text \<open>
  The training updates of a run, one per batch, each with the derivative of that batch's
  loss: the optimizer is the one \<^verbatim>\<open>configure_optimizers\<close> returns, the flags are
  those of the wrapper's model.  The state is the number of steps taken and the
  optimizer's slots.
\<close>

fun training_updates :: "lightning_module \<Rightarrow> gradients list \<Rightarrow> nat \<times> adam_state \<Rightarrow> nat \<times> adam_state" where
  "training_updates self [] ts = ts"
| "training_updates self (dloss # rest) ts =
     training_updates self rest
       (Suc (fst ts),
        optimizer_step (configure_optimizers self) (Suc (fst ts))
          (backward (requires_grad (model self)) dloss) (snd ts))"

text \<open>
  A small concrete setting for running the adapter: one row with a \<open>640 \<times> 480\<close> colour
  image and a \<open>640 \<times> 480\<close> depth map, a processor that returns a \<open>(1, 3, 2, 2)\<close> tensor
  and a resampling kernel that returns zeros.  The dataset is constructed as the notebook
  constructs it, with \<^verbatim>\<open>model_output_size = (544, 736)\<close>.
\<close>

definition example_library :: "(nat \<times> nat \<times> nat) library" where
  "example_library =
     \<lparr>fromarray_image = (\<lambda>a. Inl (OtherError ''TypeError'')),
      fromarray_depth = (\<lambda>a. Inl (OtherError ''TypeError'')),
      resample = (\<lambda>img hw. Inr (\<lambda>r c. 0))\<rparr>"

definition example_item :: "(nat \<times> nat \<times> nat) item" where
  "example_item =
     \<lparr>item_image = PILImage \<lparr>im_width = 640, im_height = 480, im_pixels = replicate (480 * 640) (0, 0, 0)\<rparr>,
      item_depth_map = PILImage \<lparr>im_width = 640, im_height = 480, im_pixels = replicate (480 * 640) 1\<rparr>\<rparr>"

definition example_processor :: "(nat \<times> nat \<times> nat) pil_image list \<Rightarrow> error + tensor" where
  "example_processor images = Inr \<lparr>shape = [1, 3, 2, 2], data = replicate 12 0\<rparr>"

definition example_dataset :: "(nat \<times> nat \<times> nat) custom_nyu_dataset" where
  "example_dataset = CustomNYUDataset [example_item] example_processor (544, 736)"

text \<open>
  A small pretrained model for running the wrapper: one parameter per part, three
  transformer layers, every flag set as the loader leaves it, and a network that
  predicts a \<open>1 \<times> 2\<close> depth map.
\<close>

definition example_pretrained :: dpt_model where
  "example_pretrained =
     \<lparr>backbone_embeddings = [0], backbone_encoder_layer = [[1], [2], [3]],
      backbone_layernorm = [4], neck = [5], head = [6],
      requires_grad = (\<lambda>p. True),
      predicted_depth = (\<lambda>x. Inr \<lparr>shape = [1, 2], data = [1, 2]\<rparr>)\<rparr>"

definition example_from_pretrained :: "string \<Rightarrow> error + dpt_model" where
  "example_from_pretrained name =
     (if name = ''facebook/dpt-dinov2-small-kitti'' then Inr example_pretrained
      else Inl (OtherError ''OSError''))"

definition example_module :: lightning_module where
  "example_module =
     \<lparr>model = example_pretrained\<lparr>requires_grad := (\<lambda>p. p \<in> {2, 3, 6} \<or> 6 < p)\<rparr>, logged = []\<rparr>"

definition example_batch :: sample where
  "example_batch =
     \<lparr>pixel_values = \<lparr>shape = [1, 3, 1, 1], data = [0, 0, 0]\<rparr>,
      labels = \<lparr>shape = [1, 2], data = [3, 5]\<rparr>\<rparr>"

section \<open>Properties\<close>

subsection \<open>Collation\<close>

lemma torch_stack_uniform:
  assumes "ts \<noteq> []" and "\<forall>t \<in> set ts. shape t = s"
  shows "torch_stack ts = Inr \<lparr>shape = length ts # s, data = concat (map data ts)\<rparr>"
proof (cases ts)
  case Nil
  with assms(1) show ?thesis by simp
next
  case (Cons t rest)
  with assms(2) have "shape t = s" and "list_all (\<lambda>u. shape u = shape t) rest"
    by (simp_all add: list_all_iff)
  with Cons show ?thesis by (simp add: torch_stack_def)
qed

text \<open>
  Claim C7.  For every list of per-example mappings (a batch: at least one example) whose
  \<^verbatim>\<open>pixel_values\<close> all have one shape \<open>sp\<close> and whose \<^verbatim>\<open>labels\<close> all
  have one shape \<open>sl\<close>, \<^verbatim>\<open>collate_fn\<close> returns a mapping with the same two keys;
  each batch tensor has the list's length as leading dimension in front of the unchanged
  per-item shape, and holds the items' elements one item after the other.
\<close>

theorem collate_fn_stacks_fields:
  assumes "batch \<noteq> []"
    and "\<forall>x \<in> set batch. shape (pixel_values x) = sp"
    and "\<forall>x \<in> set batch. shape (labels x) = sl"
  shows "collate_fn batch =
           Inr \<lparr>pixel_values =
                  \<lparr>shape = length batch # sp, data = concat (map (data \<circ> pixel_values) batch)\<rparr>,
                labels =
                  \<lparr>shape = length batch # sl, data = concat (map (data \<circ> labels) batch)\<rparr>\<rparr>"
proof -
  have pv: "torch_stack (map pixel_values batch) =
      Inr \<lparr>shape = length batch # sp, data = concat (map (data \<circ> pixel_values) batch)\<rparr>"
    using torch_stack_uniform [of "map pixel_values batch" sp] assms(1,2) by simp
  have lb: "torch_stack (map labels batch) =
      Inr \<lparr>shape = length batch # sl, data = concat (map (data \<circ> labels) batch)\<rparr>"
    using torch_stack_uniform [of "map labels batch" sl] assms(1,3) by simp
  show ?thesis by (simp add: collate_fn_def pv lb)
qed

text \<open>Two examples of per-item shapes \<open>[3]\<close> and \<open>[1, 2]\<close>: leading dimension 2.\<close>

theorem collate_fn_stacks_fields_witness:
  "collate_fn
     [\<lparr>pixel_values = \<lparr>shape = [3], data = [1, 2, 3]\<rparr>, labels = \<lparr>shape = [1, 2], data = [7, 8]\<rparr>\<rparr>,
      \<lparr>pixel_values = \<lparr>shape = [3], data = [4, 5, 6]\<rparr>, labels = \<lparr>shape = [1, 2], data = [9, 0]\<rparr>\<rparr>]
   = Inr \<lparr>pixel_values = \<lparr>shape = [2, 3], data = [1, 2, 3, 4, 5, 6]\<rparr>,
          labels = \<lparr>shape = [2, 1, 2], data = [7, 8, 9, 0]\<rparr>\<rparr>"
  using collate_fn_stacks_fields
    [of "[\<lparr>pixel_values = \<lparr>shape = [3], data = [1, 2, 3]\<rparr>,
            labels = \<lparr>shape = [1, 2], data = [7, 8]\<rparr>\<rparr>,
          \<lparr>pixel_values = \<lparr>shape = [3], data = [4, 5, 6]\<rparr>,
            labels = \<lparr>shape = [1, 2], data = [9, 0]\<rparr>\<rparr>]" "[3]" "[1, 2]"]
  by simp

text \<open>
  A list without examples is not a batch: there \<^verbatim>\<open>torch.stack\<close> raises.
\<close>

lemma collate_fn_empty_list_raises: "collate_fn [] = Inl RuntimeError"
  by (simp add: collate_fn_def torch_stack_def)

subsection \<open>The dataset adapter\<close>

lemma seq_getitem_out_of_range:
  "idx < - int (length xs) \<or> int (length xs) \<le> idx \<Longrightarrow> seq_getitem xs idx = Inl IndexError"
  by (auto simp: seq_getitem_def Let_def)

lemma seq_getitem_in_range:
  "0 \<le> idx \<Longrightarrow> idx < int (length xs) \<Longrightarrow> seq_getitem xs idx = Inr (xs ! nat idx)"
  by (simp add: seq_getitem_def Let_def)

lemma seq_getitem_from_end:
  "- int (length xs) \<le> idx \<Longrightarrow> idx < 0 \<Longrightarrow>
     seq_getitem xs idx = seq_getitem xs (idx + int (length xs))"
  by (simp add: seq_getitem_def Let_def)

lemma getitem_propagates:
  "seq_getitem (dataset self) idx = Inl e \<Longrightarrow> getitem lib self idx = Inl e"
  by (simp add: getitem_def)

lemma shape_Resize:
  "Resize k hw img = Inr out \<Longrightarrow> shape (np_array out) = [fst hw, snd hw]"
  by (auto simp: Resize_def np_array_def split: sum.splits)

lemma getitem_labels_shape:
  "getitem lib self idx = Inr r \<Longrightarrow> shape (labels r) = [576, 736]"
  by (auto simp: getitem_def torch_tensor_float32_def dest!: shape_Resize split: sum.splits)

lemma getitem_ignores_output_size:
  "getitem lib (self\<lparr>output_size := sz\<rparr>) idx = getitem lib self idx"
  by (simp add: getitem_def split: sum.splits)

lemma getitem_success:
  assumes "seq_getitem (dataset self) idx = Inr row"
    and "to_pil (fromarray_image lib) (item_image row) = Inr im"
    and "to_pil (fromarray_depth lib) (item_depth_map row) = Inr dm"
    and "processor self [im] = Inr pv"
    and "resample lib dm (576, 736) = Inr f"
  shows "getitem lib self idx =
           Inr \<lparr>pixel_values = squeeze pv,
                labels = \<lparr>shape = [576, 736], data = grid f 576 736\<rparr>\<rparr>"
  using assms by (simp add: getitem_def Resize_def np_array_def torch_tensor_float32_def)

text \<open>The adapter run on the example row: the kernel's pixels are left as the grid they are.\<close>

lemma example_getitem:
  "getitem example_library example_dataset 0 =
     Inr \<lparr>pixel_values = \<lparr>shape = [3, 2, 2], data = replicate 12 0\<rparr>,
          labels = \<lparr>shape = [576, 736], data = grid (\<lambda>r c. 0) 576 736\<rparr>\<rparr>"
  by (simp add: getitem_def example_dataset_def CustomNYUDataset_def example_item_def
      example_library_def example_processor_def seq_getitem_def to_pil_def Resize_def
      np_array_def torch_tensor_float32_def squeeze_def)

text \<open>
  Claim C4.  Whatever \<^verbatim>\<open>output_size\<close> was passed to the constructor, a
  \<^verbatim>\<open>labels\<close> tensor that \<^verbatim>\<open>__getitem__\<close> returns has shape \<open>(576, 736)\<close>; and
  neither \<^verbatim>\<open>__getitem__\<close> nor \<^verbatim>\<open>__len__\<close> reads the stored attribute: two
  datasets that differ only in \<^verbatim>\<open>output_size\<close> give the same results.
\<close>

theorem getitem_labels_shape_hard_coded:
  "(getitem lib (CustomNYUDataset ds proc sz) idx = Inr r \<longrightarrow> shape (labels r) = [576, 736]) \<and>
   getitem lib (CustomNYUDataset ds proc sz) idx = getitem lib (CustomNYUDataset ds proc sz') idx \<and>
   dataset_len (CustomNYUDataset ds proc sz) = dataset_len (CustomNYUDataset ds proc sz')"
proof -
  have "CustomNYUDataset ds proc sz = (CustomNYUDataset ds proc sz')\<lparr>output_size := sz\<rparr>"
    by (simp add: CustomNYUDataset_def)
  then have "getitem lib (CustomNYUDataset ds proc sz) idx = getitem lib (CustomNYUDataset ds proc sz') idx"
    by (simp only: getitem_ignores_output_size)
  moreover have "dataset_len (CustomNYUDataset ds proc sz) = dataset_len (CustomNYUDataset ds proc sz')"
    by (simp add: dataset_len_def CustomNYUDataset_def)
  ultimately show ?thesis
    using getitem_labels_shape by blast
qed

theorem getitem_labels_shape_hard_coded_witness:
  "getitem example_library (CustomNYUDataset [example_item] example_processor (544, 736)) 0 =
     Inr \<lparr>pixel_values = \<lparr>shape = [3, 2, 2], data = replicate 12 0\<rparr>,
          labels = \<lparr>shape = [576, 736], data = grid (\<lambda>r c. 0) 576 736\<rparr>\<rparr> \<and>
   shape (labels \<lparr>pixel_values = \<lparr>shape = [3, 2, 2], data = replicate 12 0\<rparr>,
                 labels = \<lparr>shape = [576, 736], data = grid (\<lambda>r c. 0) 576 736\<rparr>\<rparr>) = [576, 736] \<and>
   getitem example_library (CustomNYUDataset [example_item] example_processor (544, 736)) 0 =
     getitem example_library (CustomNYUDataset [example_item] example_processor (1, 1)) 0"
  using getitem_labels_shape_hard_coded
    [of example_library "[example_item]" example_processor "(544, 736)" 0
        "\<lparr>pixel_values = \<lparr>shape = [3, 2, 2], data = replicate 12 0\<rparr>,
          labels = \<lparr>shape = [576, 736], data = grid (\<lambda>r c. 0) 576 736\<rparr>\<rparr>" "(1, 1)"]
    example_getitem
  by (simp add: example_dataset_def)

text \<open>
  Claim C1 on the notebook's own configuration.  The dataset is constructed with
  \<^verbatim>\<open>model_output_size = (544, 736)\<close>, the documented target size of the depth maps,
  and the \<^verbatim>\<open>labels\<close> tensor of its first example has shape \<open>(576, 736)\<close>.
\<close>

theorem getitem_labels_shape_is_not_output_size:
  "output_size example_dataset = (544, 736) \<and>
   map_sum id (\<lambda>r. shape (labels r)) (getitem example_library example_dataset 0) = Inr [576, 736]"
  by (simp add: example_getitem) (simp add: example_dataset_def CustomNYUDataset_def)

text \<open>
  Claim C9, as amended.  With \<open>n\<close> the length of the dataset:
  \<^item> for an index outside \<open>[-n, n)\<close>, \<^verbatim>\<open>__getitem__\<close> fails with the underlying
    dataset's \<^verbatim>\<open>IndexError\<close>;
  \<^item> whatever error the underlying row lookup raises is the error of \<^verbatim>\<open>__getitem__\<close>
    (nothing is caught, nothing is retried);
  \<^item> for an index in \<open>[0, n)\<close>, \<^verbatim>\<open>__getitem__\<close> returns an example as soon as the
    conversions to PIL images, the processor and the resize succeed on that row;
  \<^item> an index in \<open>[-n, 0)\<close> is served as \<open>idx + n\<close> is, counting from the end.
\<close>

theorem getitem_index_range:
  "(idx < - int (dataset_len self) \<or> int (dataset_len self) \<le> idx
      \<longrightarrow> getitem lib self idx = Inl IndexError) \<and>
   (seq_getitem (dataset self) idx = Inl e \<longrightarrow> getitem lib self idx = Inl e) \<and>
   (0 \<le> idx \<and> idx < int (dataset_len self) \<and>
    to_pil (fromarray_image lib) (item_image (dataset self ! nat idx)) = Inr im \<and>
    to_pil (fromarray_depth lib) (item_depth_map (dataset self ! nat idx)) = Inr dm \<and>
    processor self [im] = Inr pv \<and>
    resample lib dm (576, 736) = Inr f
      \<longrightarrow> getitem lib self idx =
            Inr \<lparr>pixel_values = squeeze pv,
                 labels = \<lparr>shape = [576, 736], data = grid f 576 736\<rparr>\<rparr>) \<and>
   (- int (dataset_len self) \<le> idx \<and> idx < 0
      \<longrightarrow> getitem lib self idx = getitem lib self (idx + int (dataset_len self)))"
proof (intro conjI impI)
  assume "idx < - int (dataset_len self) \<or> int (dataset_len self) \<le> idx"
  then have "seq_getitem (dataset self) idx = Inl IndexError"
    unfolding dataset_len_def by (rule seq_getitem_out_of_range)
  then show "getitem lib self idx = Inl IndexError"
    by (rule getitem_propagates)
next
  assume "seq_getitem (dataset self) idx = Inl e"
  then show "getitem lib self idx = Inl e"
    by (rule getitem_propagates)
next
  assume a: "0 \<le> idx \<and> idx < int (dataset_len self) \<and>
    to_pil (fromarray_image lib) (item_image (dataset self ! nat idx)) = Inr im \<and>
    to_pil (fromarray_depth lib) (item_depth_map (dataset self ! nat idx)) = Inr dm \<and>
    processor self [im] = Inr pv \<and>
    resample lib dm (576, 736) = Inr f"
  then have "seq_getitem (dataset self) idx = Inr (dataset self ! nat idx)"
    by (simp add: seq_getitem_in_range dataset_len_def)
  with a show "getitem lib self idx =
      Inr \<lparr>pixel_values = squeeze pv, labels = \<lparr>shape = [576, 736], data = grid f 576 736\<rparr>\<rparr>"
    using getitem_success [of self idx "dataset self ! nat idx" lib im dm pv f] by simp
next
  assume "- int (dataset_len self) \<le> idx \<and> idx < 0"
  then have "seq_getitem (dataset self) idx = seq_getitem (dataset self) (idx + int (dataset_len self))"
    by (simp add: seq_getitem_from_end dataset_len_def)
  then show "getitem lib self idx = getitem lib self (idx + int (dataset_len self))"
    by (simp add: getitem_def)
qed

text \<open>
  On the one-row example dataset: indices \<open>1\<close> and \<open>-2\<close> raise, index \<open>0\<close> returns the
  example, and index \<open>-1\<close> returns what index \<open>0\<close> returns.
\<close>

theorem getitem_index_range_witness:
  "getitem example_library example_dataset 1 = Inl IndexError \<and>
   getitem example_library example_dataset (- 2) = Inl IndexError \<and>
   getitem example_library example_dataset 0 =
     Inr \<lparr>pixel_values = squeeze \<lparr>shape = [1, 3, 2, 2], data = replicate 12 0\<rparr>,
          labels = \<lparr>shape = [576, 736], data = grid (\<lambda>r c. 0) 576 736\<rparr>\<rparr> \<and>
   getitem example_library example_dataset (- 1) = getitem example_library example_dataset 0"
proof -
  note facts = example_dataset_def CustomNYUDataset_def dataset_len_def example_item_def
    example_library_def example_processor_def to_pil_def
  have "getitem example_library example_dataset 1 = Inl IndexError"
    using getitem_index_range [of 1 example_dataset example_library] by (simp add: facts)
  moreover have "getitem example_library example_dataset (- 2) = Inl IndexError"
    using getitem_index_range [of "- 2" example_dataset example_library] by (simp add: facts)
  moreover have "getitem example_library example_dataset 0 =
     Inr \<lparr>pixel_values = squeeze \<lparr>shape = [1, 3, 2, 2], data = replicate 12 0\<rparr>,
          labels = \<lparr>shape = [576, 736], data = grid (\<lambda>r c. 0) 576 736\<rparr>\<rparr>"
    using getitem_index_range [of 0 example_dataset example_library _
        "\<lparr>im_width = 640, im_height = 480, im_pixels = replicate (480 * 640) (0, 0, 0)\<rparr>"
        "\<lparr>im_width = 640, im_height = 480, im_pixels = replicate (480 * 640) 1\<rparr>"
        "\<lparr>shape = [1, 3, 2, 2], data = replicate 12 0\<rparr>" "\<lambda>r c. 0"]
    by (simp add: facts)
  moreover have "getitem example_library example_dataset (- 1) = getitem example_library example_dataset 0"
    using getitem_index_range [of "- 1" example_dataset example_library] by (simp add: facts)
  ultimately show ?thesis by blast
qed

text \<open>
  The claim as stated has every index outside \<open>[0, n)\<close> fail.  On the one-row example
  dataset the index \<open>-1\<close> lies outside \<open>[0, 1)\<close> and \<^verbatim>\<open>__getitem__\<close> returns the
  example.
\<close>

theorem getitem_negative_index_succeeds:
  "dataset_len example_dataset = 1 \<and> (- 1 :: int) < 0 \<and>
   getitem example_library example_dataset (- 1) =
     Inr \<lparr>pixel_values = \<lparr>shape = [3, 2, 2], data = replicate 12 0\<rparr>,
          labels = \<lparr>shape = [576, 736], data = grid (\<lambda>r c. 0) 576 736\<rparr>\<rparr>"
  by (simp add: getitem_def example_dataset_def CustomNYUDataset_def example_item_def
      example_library_def example_processor_def seq_getitem_def to_pil_def Resize_def
      np_array_def torch_tensor_float32_def squeeze_def dataset_len_def)

subsection \<open>Mean squared error on tensors of one shape\<close>

lemma broadcast_rev_same: "broadcast_rev xs xs = Inr xs"
  by (induction xs) auto

lemma broadcast_shapes_same: "broadcast_shapes s s = Inr s"
  by (simp add: broadcast_shapes_def broadcast_rev_same)

lemma concat_chunks:
  "concat (map (\<lambda>i. take c (drop (i * c) xs)) [0..<d]) = take (d * c) xs"
proof (induction d)
  case 0
  then show ?case by simp
next
  case (Suc d)
  have "take (Suc d * c) xs = take (d * c + c) xs"
    by (simp add: add.commute)
  also have "\<dots> = take (d * c) xs @ take c (drop (d * c) xs)"
    by (rule take_add)
  finally show ?case using Suc by simp
qed

lemma expand_data_same:
  "length xs = prod_list s \<Longrightarrow> expand_data s s xs = xs"
proof (induction s arbitrary: xs)
  case Nil
  then show ?case by simp
next
  case (Cons d ds)
  have eq: "map (\<lambda>i. expand_data ds ds (take (prod_list ds) (drop (i * prod_list ds) xs))) [0..<d] =
        map (\<lambda>i. take (prod_list ds) (drop (i * prod_list ds) xs)) [0..<d]"
  proof (rule map_cong [OF refl])
    fix i assume "i \<in> set [0..<d]"
    then have "i < d" by simp
    then have "Suc i \<le> d" by simp
    then have "Suc i * prod_list ds \<le> d * prod_list ds"
      by (rule mult_le_mono1)
    with Cons.prems have "length (take (prod_list ds) (drop (i * prod_list ds) xs)) = prod_list ds"
      by simp
    then show "expand_data ds ds (take (prod_list ds) (drop (i * prod_list ds) xs)) =
        take (prod_list ds) (drop (i * prod_list ds) xs)"
      by (rule Cons.IH)
  qed
  have "expand_data (d # ds) (d # ds) xs = take (d * prod_list ds) xs"
    unfolding expand_data.simps Let_def eq by (simp add: concat_chunks)
  with Cons.prems show ?case by simp
qed

lemma broadcast_to_same: "wf_tensor t \<Longrightarrow> broadcast_to (shape t) t = t"
  by (simp add: broadcast_to_def wf_tensor_def expand_data_same)

lemma mse_loss_same_shape:
  assumes "shape input = shape target" "wf_tensor input" "wf_tensor target"
  shows "mse_loss input target = Inr (mean (map2 (\<lambda>a b. (a - b)\<^sup>2) (data input) (data target)))"
  using assms broadcast_to_same [of input] broadcast_to_same [of target]
  by (simp add: mse_loss_def broadcast_shapes_same)

lemma sum_list_map2_nth:
  "length xs = length ys \<Longrightarrow>
     sum_list (map2 f xs ys) = (\<Sum>i<length xs. f (xs ! i) (ys ! i))"
proof -
  assume len: "length xs = length ys"
  have "sum_list (map2 f xs ys) = (\<Sum>i = 0..<length (map2 f xs ys). map2 f xs ys ! i)"
    by (rule sum_list_sum_nth)
  also have "\<dots> = (\<Sum>i = 0..<length xs. f (xs ! i) (ys ! i))"
    using len by (intro sum.cong) simp_all
  finally show ?thesis by (simp add: atLeast0LessThan)
qed

text \<open>
  The sizes the notebook prints, a model output of \<open>(544, 736)\<close> and labels of
  \<open>(576, 736)\<close> in batches of two, cannot be broadcast.
\<close>

lemma broadcast_shapes_notebook_sizes:
  "broadcast_shapes [2, 544, 736] [2, 576, 736] = Inl RuntimeError"
  by (simp add: broadcast_shapes_def)

subsection \<open>The model wrapper\<close>

lemma set_requires_grad_apply:
  "set_requires_grad b rg ps p = (if p \<in> set ps then b else rg p)"
  unfolding set_requires_grad_def
  by (induction ps arbitrary: rg) auto

lemma set_parameters: "set (parameters ps) = set ps"
  by (simp add: parameters_def)

lemma unfreeze_layers_apply:
  "foldl (\<lambda>g layer. set_requires_grad True g (parameters layer)) rg ls p =
     (if p \<in> set (concat ls) then True else rg p)"
  by (induction ls arbitrary: rg) (auto simp: set_requires_grad_apply set_parameters)

lemma init_model:
  assumes "DPTLightningModule from_pretrained = Inr self"
  obtains m where "from_pretrained ''facebook/dpt-dinov2-small-kitti'' = Inr m"
    and "backbone_embeddings (model self) = backbone_embeddings m"
    and "backbone_encoder_layer (model self) = backbone_encoder_layer m"
    and "backbone_layernorm (model self) = backbone_layernorm m"
    and "neck (model self) = neck m"
    and "head (model self) = head m"
    and "predicted_depth (model self) = predicted_depth m"
    and "logged self = []"
    and "\<And>p. requires_grad (model self) p =
           (if p \<in> trainable m then True
            else if p \<in> set (model_parameters m) then False
            else requires_grad m p)"
  using assms
  by (auto simp: DPTLightningModule_def Let_def set_requires_grad_apply unfreeze_layers_apply
      set_parameters trainable_def split: sum.splits)

lemma model_after_call: "model (after_call self c) = model self"
  by (cases c) (auto simp: training_step_def validation_step_def split: sum.splits)

lemma model_after_calls: "model (after_calls self cs) = model self"
  unfolding after_calls_def
  by (induction cs arbitrary: self) (simp_all add: model_after_call)

lemma frozen_after_init:
  assumes "DPTLightningModule from_pretrained = Inr self"
    and "p \<in> set (module_parameters self)"
    and "p \<notin> trainable (model self)"
  shows "\<not> requires_grad (model self) p"
proof -
  from assms(1) obtain m where
    layers: "backbone_encoder_layer (model self) = backbone_encoder_layer m" and
    hd: "head (model self) = head m" and
    others: "backbone_embeddings (model self) = backbone_embeddings m"
      "backbone_layernorm (model self) = backbone_layernorm m" "neck (model self) = neck m" and
    rg: "\<And>p. requires_grad (model self) p =
       (if p \<in> trainable m then True
        else if p \<in> set (model_parameters m) then False else requires_grad m p)"
    by (rule init_model) blast
  have "set (module_parameters self) = set (model_parameters m)"
    by (simp add: module_parameters_def model_parameters_def set_parameters layers hd others)
  with assms(2,3) rg [of p] show ?thesis
    by (simp add: trainable_def layers hd)
qed

text \<open>
  The training update: an element whose running averages are zero and whose gradient is
  zero is left as it is, so a parameter without gradient computation keeps its slots
  through any number of updates; an element with a gradient is moved by the first step.
\<close>

lemma adam_update_zero_gradient:
  "exp_avg s = 0 \<Longrightarrow> exp_avg_sq s = 0 \<Longrightarrow> adam_update t s 0 = s"
  by (simp add: adam_update_def)

lemma frozen_slot_kept:
  assumes "\<not> requires_grad (model self) p"
    and "exp_avg (snd ts p i) = 0" and "exp_avg_sq (snd ts p i) = 0"
  shows "snd (training_updates self dlosses ts) p i = snd ts p i"
  using assms(2,3)
proof (induction dlosses arbitrary: ts)
  case Nil
  then show ?case by simp
next
  case (Cons dloss rest)
  let ?st = "optimizer_step (configure_optimizers self) (Suc (fst ts))
      (backward (requires_grad (model self)) dloss) (snd ts)"
  have kept: "?st p i = snd ts p i"
    using assms(1) Cons.prems
    by (simp add: optimizer_step_def backward_def adam_update_zero_gradient)
  have "snd (training_updates self rest (Suc (fst ts), ?st)) p i = snd (Suc (fst ts), ?st) p i"
    by (rule Cons.IH) (simp_all add: kept Cons.prems)
  then show ?case by (simp add: kept)
qed

lemma adam_update_moves:
  assumes "g \<noteq> 0" and "exp_avg s = 0" and "exp_avg_sq s = 0"
  shows "weight (adam_update 1 s g) \<noteq> weight s"
proof -
  define denom where "denom = sqrt (g\<^sup>2 / 1000) / sqrt (1 / 1000) + 1 / 10 ^ 8"
  have "0 \<le> sqrt (g\<^sup>2 / 1000) / sqrt (1 / 1000)"
    by simp
  moreover have "(0::real) < 1 / 10 ^ 8"
    by simp
  ultimately have pos: "0 < denom"
    unfolding denom_def by (rule add_nonneg_pos)
  have "weight (adam_update 1 s g) = weight s - (1 / 100) * ((g / 10) / denom)"
    using assms(2,3) by (simp add: adam_update_def Let_def denom_def)
  with assms(1) pos show ?thesis by simp
qed

lemma trainable_parameter_moves:
  assumes "requires_grad (model self) p" and "p \<in> set (module_parameters self)"
    and "dloss p i \<noteq> 0"
  shows "weight (snd (training_updates self [dloss] (0, adam_init w)) p i) \<noteq> w p i"
  using assms adam_update_moves [of "dloss p i" "\<lparr>weight = w p i, exp_avg = 0, exp_avg_sq = 0\<rparr>"]
  by (simp add: optimizer_step_def backward_def configure_optimizers_def adam_init_def)

text \<open>The wrapper run on the example model.\<close>

lemma example_init: "DPTLightningModule example_from_pretrained = Inr example_module"
proof -
  have "set_requires_grad True
          (foldl (\<lambda>g layer. set_requires_grad True g (parameters layer))
             (set_requires_grad False (\<lambda>p. True) (model_parameters example_pretrained))
             (last_two (backbone_encoder_layer example_pretrained)))
          (parameters (head example_pretrained)) = (\<lambda>p. p \<in> {2, 3, 6} \<or> 6 < p)"
    by (rule ext)
      (auto simp: set_requires_grad_apply unfreeze_layers_apply set_parameters
        model_parameters_def last_two_def example_pretrained_def)
  then show ?thesis
    by (simp add: DPTLightningModule_def example_from_pretrained_def example_module_def Let_def)
      (simp add: example_pretrained_def)
qed

lemma example_module_parameters: "module_parameters example_module = [0, 1, 2, 3, 4, 5, 6]"
  by (simp add: module_parameters_def model_parameters_def parameters_def example_module_def
      example_pretrained_def)

lemma example_common_step: "common_step example_module example_batch 0 = Inr (Finite (13 / 2))"
  by (simp add: common_step_def forward_def example_module_def example_pretrained_def
      example_batch_def mse_loss_def broadcast_shapes_def broadcast_to_def mean_def
      upt_rec [of 0] upt_rec [of "Suc 0"])

text \<open>
  Claim C2.  After the construction of the wrapper, and after any sequence of calls of
  \<^verbatim>\<open>forward\<close>, \<^verbatim>\<open>common_step\<close>, \<^verbatim>\<open>configure_optimizers\<close>,
  \<^verbatim>\<open>training_step\<close> and \<^verbatim>\<open>validation_step\<close> (the empty sequence included), a
  parameter of the wrapper has \<^verbatim>\<open>requires_grad = True\<close> exactly when it is a parameter
  of one of the last two transformer layers of the backbone or of the head; and the
  flags are those the constructor set.
\<close>

theorem partition_fixed:
  assumes "DPTLightningModule from_pretrained = Inr self"
  shows "(\<forall>p \<in> set (module_parameters (after_calls self calls)).
            requires_grad (model (after_calls self calls)) p =
              (p \<in> set (concat (last_two (backbone_encoder_layer (model (after_calls self calls)))))
                 \<union> set (head (model (after_calls self calls))))) \<and>
         requires_grad (model (after_calls self calls)) = requires_grad (model self)"
proof -
  from assms obtain m where
    layers: "backbone_encoder_layer (model self) = backbone_encoder_layer m" and
    hd: "head (model self) = head m" and
    others: "backbone_embeddings (model self) = backbone_embeddings m"
      "backbone_layernorm (model self) = backbone_layernorm m" "neck (model self) = neck m" and
    rg: "\<And>p. requires_grad (model self) p =
       (if p \<in> trainable m then True
        else if p \<in> set (model_parameters m) then False else requires_grad m p)"
    by (rule init_model) blast
  have same: "model (after_calls self calls) = model self"
    by (rule model_after_calls)
  have params: "set (module_parameters self) = set (model_parameters m)"
    by (simp add: module_parameters_def model_parameters_def set_parameters layers hd others)
  have "requires_grad (model self) p =
      (p \<in> set (concat (last_two (backbone_encoder_layer (model self)))) \<union> set (head (model self)))"
    if "p \<in> set (module_parameters self)" for p
    using that params rg [of p] by (simp add: trainable_def layers hd)
  then show ?thesis
    by (simp add: same module_parameters_def)
qed

text \<open>
  On the example model the parameters of the layers \<open>[2]\<close> and \<open>[3]\<close> and of the head
  \<open>[6]\<close> are trainable after a training step and a call of \<^verbatim>\<open>configure_optimizers\<close>.
\<close>

theorem partition_fixed_witness:
  "DPTLightningModule example_from_pretrained = Inr example_module \<and>
   module_parameters (after_calls example_module [TrainingStep example_batch 0, ConfigureOptimizers])
     = [0, 1, 2, 3, 4, 5, 6] \<and>
   map (requires_grad (model (after_calls example_module [TrainingStep example_batch 0, ConfigureOptimizers])))
     [0, 1, 2, 3, 4, 5, 6] = [False, False, True, True, False, False, True]"
proof -
  let ?s = "after_calls example_module [TrainingStep example_batch 0, ConfigureOptimizers]"
  have same: "model ?s = model example_module"
    by (rule model_after_calls)
  then have ps: "module_parameters ?s = [0, 1, 2, 3, 4, 5, 6]"
    using example_module_parameters by (simp add: module_parameters_def)
  have tr: "set (concat (last_two (backbone_encoder_layer (model ?s)))) \<union> set (head (model ?s)) = {2, 3, 6}"
    unfolding same by (auto simp: example_module_def example_pretrained_def last_two_def)
  from partition_fixed [OF example_init, of "[TrainingStep example_batch 0, ConfigureOptimizers]"]
  have "\<forall>p \<in> set [0, 1, 2, 3, 4, 5, 6]. requires_grad (model ?s) p = (p \<in> {2, 3, 6})"
    unfolding ps tr by blast
  then have "map (requires_grad (model ?s)) [0, 1, 2, 3, 4, 5, 6]
      = [False, False, True, True, False, False, True]"
    by simp
  with example_init ps show ?thesis by blast
qed

text \<open>
  Claim C3.  When the forward pass returns predictions of exactly the shape of the
  labels (both well-formed tensors), \<^verbatim>\<open>common_step\<close> returns the mean over all
  elements of the squared difference between prediction and label; over no elements
  that mean is \<^verbatim>\<open>nan\<close>.
\<close>

theorem common_step_is_mse:
  assumes "forward self (pixel_values batch) = Inr preds"
    and "shape preds = shape (labels batch)"
    and "wf_tensor preds" and "wf_tensor (labels batch)"
  shows "common_step self batch batch_idx =
           Inr (if data preds = [] then NaN
                else Finite ((\<Sum>i<length (data preds). (data preds ! i - data (labels batch) ! i)\<^sup>2)
                             / real (length (data preds))))"
proof -
  from assms(2-4) have len: "length (data preds) = length (data (labels batch))"
    by (simp add: wf_tensor_def)
  from assms have "common_step self batch batch_idx =
      Inr (mean (map2 (\<lambda>a b. (a - b)\<^sup>2) (data preds) (data (labels batch))))"
    by (simp add: common_step_def mse_loss_same_shape)
  also have "mean (map2 (\<lambda>a b. (a - b)\<^sup>2) (data preds) (data (labels batch))) =
      (if data preds = [] then NaN
       else Finite ((\<Sum>i<length (data preds). (data preds ! i - data (labels batch) ! i)\<^sup>2)
                    / real (length (data preds))))"
    using len sum_list_map2_nth [OF len, of "\<lambda>a b. (a - b)\<^sup>2"]
    by (auto simp: mean_def)
  finally show ?thesis .
qed

text \<open>Predictions \<open>[1, 2]\<close> against labels \<open>[3, 5]\<close>: \<open>(4 + 9) / 2\<close>.\<close>

theorem common_step_is_mse_witness:
  "common_step example_module example_batch 0 = Inr (Finite (13 / 2))"
proof -
  have "(\<Sum>i<2. ([1, 2 :: real] ! i - [3, 5] ! i)\<^sup>2) = 13"
    by (simp add: lessThan_Suc numeral_2_eq_2)
  then show ?thesis
    using common_step_is_mse [of example_module example_batch "\<lparr>shape = [1, 2], data = [1, 2]\<rparr>" 0]
    by (simp add: forward_def example_module_def example_pretrained_def example_batch_def wf_tensor_def)
qed

text \<open>
  Claim C8.  When \<^verbatim>\<open>common_step\<close> returns a loss, \<^verbatim>\<open>training_step\<close> returns that
  loss and logs it once under \<^verbatim>\<open>"training_loss"\<close>, per step; \<^verbatim>\<open>validation_step\<close>
  returns the same loss and logs it once under \<^verbatim>\<open>"validation_loss"\<close>, aggregated
  over the epoch and not per step.
\<close>

theorem steps_log_and_return_loss:
  assumes "common_step self batch batch_idx = Inr loss"
  shows "training_step self batch batch_idx =
           (Inr loss,
            self\<lparr>logged := logged self @
              [\<lparr>metric_name = ''training_loss'', metric_value = loss,
                on_step = True, on_epoch = False\<rparr>]\<rparr>) \<and>
         validation_step self batch batch_idx =
           (Inr loss,
            self\<lparr>logged := logged self @
              [\<lparr>metric_name = ''validation_loss'', metric_value = loss,
                on_step = False, on_epoch = True\<rparr>]\<rparr>)"
  using assms by (simp add: training_step_def validation_step_def log_metric_def)

theorem steps_log_and_return_loss_witness:
  "training_step example_module example_batch 0 =
     (Inr (Finite (13 / 2)),
      example_module\<lparr>logged :=
        [\<lparr>metric_name = ''training_loss'', metric_value = Finite (13 / 2),
          on_step = True, on_epoch = False\<rparr>]\<rparr>) \<and>
   validation_step example_module example_batch 0 =
     (Inr (Finite (13 / 2)),
      example_module\<lparr>logged :=
        [\<lparr>metric_name = ''validation_loss'', metric_value = Finite (13 / 2),
          on_step = False, on_epoch = True\<rparr>]\<rparr>)"
  using steps_log_and_return_loss [OF example_common_step]
  by (simp add: example_module_def)

text \<open>
  Claim C10.  \<^verbatim>\<open>configure_optimizers\<close> returns one Adam optimizer over all
  parameters of the wrapper.  A frozen parameter (one outside the last two layers and the
  head) is therefore in the optimizer's list; gradient computation is disabled for it, so
  every element of it receives zero gradient in the backward pass of any loss, and
  through any sequence of training updates of that optimizer, started from a fresh
  optimizer state, every element of it keeps its initial value.
\<close>

theorem optimizer_over_all_parameters:
  assumes init: "DPTLightningModule from_pretrained = Inr self"
  shows "opt_class (configure_optimizers self) = ''torch.optim.Adam'' \<and>
         opt_params (configure_optimizers self) = module_parameters self \<and>
         (\<forall>p \<in> set (module_parameters self).
            p \<notin> set (concat (last_two (backbone_encoder_layer (model self)))) \<union> set (head (model self))
            \<longrightarrow> p \<in> set (opt_params (configure_optimizers self)) \<and>
                \<not> requires_grad (model self) p \<and>
                backward (requires_grad (model self)) dloss p i = 0 \<and>
                weight (snd (training_updates self dlosses (0, adam_init w)) p i) = w p i)"
proof -
  have cls: "opt_class (configure_optimizers self) = ''torch.optim.Adam''"
    and ps: "opt_params (configure_optimizers self) = module_parameters self"
    by (simp_all add: configure_optimizers_def)
  have "p \<in> set (opt_params (configure_optimizers self)) \<and> \<not> requires_grad (model self) p \<and>
        backward (requires_grad (model self)) dloss p i = 0 \<and>
        weight (snd (training_updates self dlosses (0, adam_init w)) p i) = w p i"
    if "p \<in> set (module_parameters self)"
      and "p \<notin> set (concat (last_two (backbone_encoder_layer (model self)))) \<union> set (head (model self))"
    for p
  proof -
    from that have frozen: "\<not> requires_grad (model self) p"
      by (intro frozen_after_init [OF init]) (simp_all add: trainable_def)
    then have zero: "backward (requires_grad (model self)) dloss p i = 0"
      by (simp add: backward_def)
    have "snd (training_updates self dlosses (0, adam_init w)) p i = snd (0 :: nat, adam_init w) p i"
      using frozen by (rule frozen_slot_kept) (simp_all add: adam_init_def)
    then have "weight (snd (training_updates self dlosses (0, adam_init w)) p i) = w p i"
      by (simp add: adam_init_def)
    with frozen zero that(1) ps show ?thesis by simp
  qed
  with cls ps show ?thesis by blast
qed

text \<open>
  On the example model, with two updates whose loss has derivative \<open>1\<close> and \<open>-2\<close> in
  every element: the frozen parameters \<open>0\<close>, \<open>1\<close>, \<open>4\<close> and \<open>5\<close> stay at \<open>10\<close>.
\<close>

theorem optimizer_over_all_parameters_witness:
  "opt_class (configure_optimizers example_module) = ''torch.optim.Adam'' \<and>
   opt_params (configure_optimizers example_module) = [0, 1, 2, 3, 4, 5, 6] \<and>
   map (requires_grad (model example_module)) [0, 1, 4, 5] = [False, False, False, False] \<and>
   map (\<lambda>p. backward (requires_grad (model example_module)) (\<lambda>p i. 1) p 0) [0, 1, 4, 5]
     = [0, 0, 0, 0] \<and>
   map (\<lambda>p. weight (snd (training_updates example_module [\<lambda>p i. 1, \<lambda>p i. - 2]
                             (0, adam_init (\<lambda>p i. 10))) p 0)) [0, 1, 4, 5]
     = [10, 10, 10, 10]"
proof -
  have tr: "set (concat (last_two (backbone_encoder_layer (model example_module)))) \<union>
      set (head (model example_module)) = {2, 3, 6}"
    by (auto simp: example_module_def example_pretrained_def last_two_def)
  from optimizer_over_all_parameters
    [where dloss = "\<lambda>p i. 1" and i = 0 and dlosses = "[\<lambda>p i. 1, \<lambda>p i. - 2]"
       and w = "\<lambda>p i. 10", OF example_init]
  show ?thesis
    unfolding tr example_module_parameters by simp
qed

end
